theory Spec2Isabelle
  imports Main
begin

section \<open>Data model\<close>

text \<open>
  Text is a \<open>string\<close>: the sequence of the code units of a Python \<open>str\<close> (a non-ASCII
  character of the source's message literals is written as its UTF-8 bytes). No function
  of the converter looks inside a field; only lists are measured and indexed.
\<close>

text \<open>
  The exception classes that reach the converter and the server, each with the text that
  \<open>str(e)\<close> gives. \<open>UnicodeDecodeError\<close> is a subclass of \<open>ValueError\<close> in Python;
  \<open>CsvError\<close> is \<open>csv.Error\<close>; \<open>OtherException\<close> is any further subclass of
  \<open>Exception\<close> (\<open>TypeError\<close> for a delimiter that is not one character, \<open>LookupError\<close>
  for an unknown encoding, \<open>OSError\<close> for a file that cannot be opened, ...).
\<close>

datatype exn =
    FileNotFoundError string
  | ValueError string
  | CsvError string
  | UnicodeDecodeError string
  | OtherException string

fun str_exn :: "exn \<Rightarrow> string" where
  "str_exn (FileNotFoundError m) = m"
| "str_exn (ValueError m) = m"
| "str_exn (CsvError m) = m"
| "str_exn (UnicodeDecodeError m) = m"
| "str_exn (OtherException m) = m"

text \<open>\<open>class CSVConversionOptions(BaseModel)\<close>: six fields, no validator on any of them.\<close>

record CSVConversionOptions =
  delimiter :: string
  encoding :: string
  skip_rows :: int
  header :: bool
  orient :: string
  indent :: "int option"

definition default_options :: CSVConversionOptions where
  "default_options =
     \<lparr>delimiter = '','', encoding = ''utf-8'', skip_rows = 0, header = True,
      orient = ''records'', indent = None\<rparr>"

text \<open>\<open>self.supported_formats\<close> of \<open>CSVConverter.__init__\<close>.\<close>

definition supported_formats :: "string list" where
  "supported_formats = [''records'', ''values'', ''split'']"

type_synonym row = "string list"
type_synonym table = "string list \<times> row list"

section \<open>The standard library, as far as the converter calls it\<close>

text \<open>
  A \<open>csv.reader\<close> is consumed lazily: it yields records until the input ends or an
  exception is raised. A reader is the list of the records it yields before that, and the
  exception, if any.
\<close>

type_synonym reader = "row list \<times> exn option"

text \<open>\<open>list(reader)\<close>: all the records, or the exception.\<close>

fun list_reader :: "reader \<Rightarrow> exn + row list" where
  "list_reader (rows, None) = Inr rows"
| "list_reader (rows, Some e) = Inl e"

text \<open>
  The loop of \<open>get_csv_info\<close>,
  \<^verbatim>\<open>for i, row in enumerate(reader): if i >= 10: break; rows.append(row)\<close>,
  asks the reader for at most \<open>n + 1\<close> records: when the reader has more than \<open>n\<close>, the
  loop breaks on record \<open>n\<close> and a later exception is never raised.
\<close>

definition take_reader :: "nat \<Rightarrow> reader \<Rightarrow> exn + row list" where
  "take_reader n rd =
     (if n < length (fst rd) then Inr (take n (fst rd)) else list_reader rd)"

text \<open>
  The library functions are parameters of the model: \<open>pathlib\<close>, \<open>open\<close>, \<open>csv.reader\<close>
  and the codecs are not code of this repository.
  \<^item> \<open>path_str p\<close> is \<open>str(Path(p))\<close>, the path every file operation uses;
  \<^item> \<open>with_suffix_json p\<close> is \<open>str(Path(p).with_suffix('.json'))\<close>;
  \<^item> \<open>file_reader enc delim bytes\<close> is \<open>csv.reader(f, delimiter=delim)\<close> on a file of
    content \<open>bytes\<close> opened with \<open>open(path, 'r', encoding=enc)\<close>;
  \<^item> \<open>string_reader delim text\<close> is \<open>csv.reader(StringIO(text), delimiter=delim)\<close>;
  \<^item> \<open>file_lines bytes\<close> is \<open>sum(1 for _ in f)\<close> on the file opened as UTF-8 text;
  \<^item> \<open>text_encode enc text\<close> is the bytes that \<open>f.write(text)\<close> stores in a file
    opened with \<open>encoding=enc\<close>;
  \<^item> \<open>open_w_error p\<close> is the exception of \<open>open(p, 'w')\<close>, if it raises.
\<close>

record stdlib =
  path_str :: "string \<Rightarrow> string"
  with_suffix_json :: "string \<Rightarrow> string"
  file_reader :: "string \<Rightarrow> string \<Rightarrow> string \<Rightarrow> reader"
  string_reader :: "string \<Rightarrow> string \<Rightarrow> reader"
  file_lines :: "string \<Rightarrow> exn + nat"
  text_encode :: "string \<Rightarrow> string \<Rightarrow> exn + string"
  open_w_error :: "string \<Rightarrow> exn option"

text \<open>The file system: the content of every file that exists, by path.\<close>

type_synonym fsys = "string \<rightharpoonup> string"

section \<open>Python helpers\<close>

text \<open>\<open>xs[k:]\<close> for any integer \<open>k\<close>: a negative \<open>k\<close> counts from the end.\<close>

definition py_slice_from :: "'a list \<Rightarrow> int \<Rightarrow> 'a list" where
  "py_slice_from xs k =
     (if 0 \<le> k then drop (nat k) xs else drop (length xs - nat (- k)) xs)"

text \<open>\<open>xs[a:b]\<close> for \<open>0 \<le> a \<le> b\<close>.\<close>

definition py_slice :: "'a list \<Rightarrow> nat \<Rightarrow> nat \<Rightarrow> 'a list" where
  "py_slice xs a b = take (b - a) (drop a xs)"

text \<open>\<open>str(i)\<close> of a non-negative integer, as the f-string \<open>f"column_{i}"\<close> formats it.\<close>

definition digit_char :: "nat \<Rightarrow> char" where
  "digit_char d = ''0123456789'' ! d"

fun str_nat :: "nat \<Rightarrow> string" where
  "str_nat n = (if n < 10 then [digit_char n] else str_nat (n div 10) @ [digit_char (n mod 10)])"

declare str_nat.simps [simp del]

text \<open>\<open>[f"column_{i}" for i in range(n)]\<close>.\<close>

definition column_names :: "nat \<Rightarrow> string list" where
  "column_names n = map (\<lambda>i. ''column_'' @ str_nat i) [0..<n]"

section \<open>Table Reader\<close>

text \<open>\<open>CSVConverter._process_csv_reader\<close>.\<close>

definition process_csv_reader :: "reader \<Rightarrow> CSVConversionOptions \<Rightarrow> exn + table" where
  "process_csv_reader rd options =
     (case list_reader rd of
        Inl e \<Rightarrow> Inl e
      | Inr rows0 \<Rightarrow>
          (let rows = (if skip_rows options > 0 then py_slice_from rows0 (skip_rows options)
                       else rows0)
           in if rows = [] then Inr ([], [])
              else if header options then Inr (rows ! 0, py_slice_from rows 1)
              else Inr (column_names (length (rows ! 0)), rows)))"

text \<open>
  The message of the \<open>FileNotFoundError\<close> that \<open>open\<close> raises for a missing file (the
  quoting of unusual characters by \<open>repr\<close> is not modelled).
\<close>

definition enoent_msg :: "string \<Rightarrow> string" where
  "enoent_msg p = ''[Errno 2] No such file or directory: '' @ [CHR 0x27] @ p @ [CHR 0x27]"

text \<open>
  \<open>CSVConverter._read_csv_data\<close>: the source is a path (\<open>str\<close> or \<open>Path\<close>) or a
  \<open>StringIO\<close>.
\<close>

datatype csv_source = SrcPath string | SrcText string

fun read_csv_data ::
  "stdlib \<Rightarrow> fsys \<Rightarrow> csv_source \<Rightarrow> CSVConversionOptions \<Rightarrow> exn + table" where
  "read_csv_data L fs (SrcPath p) options =
     (case fs p of
        None \<Rightarrow> Inl (FileNotFoundError (enoent_msg p))
      | Some bytes \<Rightarrow>
          process_csv_reader (file_reader L (encoding options) (delimiter options) bytes) options)"
| "read_csv_data L fs (SrcText s) options =
     process_csv_reader (string_reader L (delimiter options) s) options"

section \<open>JSON values and \<open>json.dumps\<close>\<close>

text \<open>
  The values the converter hands to \<open>json.dumps\<close>: strings, lists and dicts. A Python
  dict keeps its keys in insertion order and holds each key once.
\<close>

datatype json = JStr string | JArr "json list" | JObj "(string \<times> json) list"

text \<open>\<open>d[k] = v\<close>: a key that is present keeps its place and takes the new value.\<close>

definition dict_set :: "string \<Rightarrow> 'v \<Rightarrow> (string \<times> 'v) list \<Rightarrow> (string \<times> 'v) list" where
  "dict_set k v d =
     (if k \<in> set (map fst d) then map (\<lambda>kv. if fst kv = k then (k, v) else kv) d
      else d @ [(k, v)])"

text \<open>
  \<open>{headers[i]: row[i] for i in range(len(headers))}\<close>. Both places that build it
  check \<open>len(row) == len(headers)\<close> first, so no index is out of range.
\<close>

definition dict_comp :: "string list \<Rightarrow> row \<Rightarrow> (string \<times> string) list" where
  "dict_comp headers row =
     fold (\<lambda>i d. dict_set (headers ! i) (row ! i) d) [0..<length headers] []"

definition json_of_row :: "row \<Rightarrow> json" where
  "json_of_row r = JArr (map JStr r)"

definition json_of_rows :: "row list \<Rightarrow> json" where
  "json_of_rows rs = JArr (map json_of_row rs)"

definition json_of_record :: "(string \<times> string) list \<Rightarrow> json" where
  "json_of_record d = JObj (map (\<lambda>kv. (fst kv, JStr (snd kv))) d)"

text \<open>
  String encoding with \<open>ensure_ascii=False\<close>: the quote, the backslash and the control
  characters below 0x20 are escaped, everything else is copied.
\<close>

definition hex_digit :: "nat \<Rightarrow> char" where
  "hex_digit d = ''0123456789abcdef'' ! d"

definition escape_char :: "char \<Rightarrow> string" where
  "escape_char c =
     (if c = CHR 0x22 then [CHR 0x5C, CHR 0x22]
      else if c = CHR 0x5C then [CHR 0x5C, CHR 0x5C]
      else if c = CHR 0x0A then [CHR 0x5C, CHR ''n'']
      else if c = CHR 0x0D then [CHR 0x5C, CHR ''r'']
      else if c = CHR 0x09 then [CHR 0x5C, CHR ''t'']
      else if c = CHR 0x08 then [CHR 0x5C, CHR ''b'']
      else if c = CHR 0x0C then [CHR 0x5C, CHR ''f'']
      else if (of_char c :: nat) < 32 then
        [CHR 0x5C, CHR ''u'', CHR ''0'', CHR ''0'',
         hex_digit ((of_char c :: nat) div 16), hex_digit ((of_char c :: nat) mod 16)]
      else [c])"

definition encode_basestring :: "string \<Rightarrow> string" where
  "encode_basestring s = [CHR 0x22] @ concat (map escape_char s) @ [CHR 0x22]"

text \<open>\<open>sep.join(parts)\<close>.\<close>

fun join :: "string \<Rightarrow> string list \<Rightarrow> string" where
  "join sep [] = []"
| "join sep [x] = x"
| "join sep (x # y # ys) = x @ sep @ join sep (y # ys)"

text \<open>
  With \<open>indent=None\<close> the separators are \<open>', '\<close> and \<open>': '\<close> and nothing is broken into
  lines; with an integer indent the item separator is \<open>','\<close> and every item starts on a
  line of its own, indented by \<open>' ' * indent\<close> per level (\<open>' ' * k\<close> is empty for
  \<open>k \<le> 0\<close>).
\<close>

definition item_separator :: "int option \<Rightarrow> string" where
  "item_separator ind = (case ind of None \<Rightarrow> '', '' | Some k \<Rightarrow> '','')"

definition newline_indent :: "int option \<Rightarrow> nat \<Rightarrow> string" where
  "newline_indent ind level =
     (case ind of None \<Rightarrow> [] | Some k \<Rightarrow> CHR 0x0A # replicate (nat k * level) CHR '' '')"

fun iterencode :: "int option \<Rightarrow> nat \<Rightarrow> json \<Rightarrow> string" where
  "iterencode ind level (JStr s) = encode_basestring s"
| "iterencode ind level (JArr xs) =
     (if xs = [] then ''[]''
      else ''['' @ newline_indent ind (Suc level)
        @ join (item_separator ind @ newline_indent ind (Suc level))
            (map (iterencode ind (Suc level)) xs)
        @ newline_indent ind level @ '']'')"
| "iterencode ind level (JObj kvs) =
     (if kvs = [] then ''{}''
      else ''{'' @ newline_indent ind (Suc level)
        @ join (item_separator ind @ newline_indent ind (Suc level))
            (map (\<lambda>kv. encode_basestring (fst kv) @ '': '' @ iterencode ind (Suc level) (snd kv)) kvs)
        @ newline_indent ind level @ ''}'')"

text \<open>\<open>json.dumps(result, ensure_ascii=False, indent=indent)\<close>.\<close>

definition json_dumps :: "int option \<Rightarrow> json \<Rightarrow> string" where
  "json_dumps ind v = iterencode ind 0 v"

section \<open>Shape Converter\<close>

text \<open>The messages of the converter, as the UTF-8 bytes of the source's literals.\<close>

definition msg_unsupported :: string where
  "msg_unsupported = [CHR 0xE4, CHR 0xB8, CHR 0x8D, CHR 0xE6, CHR 0x94, CHR 0xAF, CHR 0xE6, CHR 0x8C, CHR 0x81, CHR 0xE7, CHR 0x9A, CHR 0x84] @ '' JSON '' @ [CHR 0xE6, CHR 0xA0, CHR 0xBC, CHR 0xE5, CHR 0xBC, CHR 0x8F] @ '': ''"

definition msg_not_found :: string where
  "msg_not_found = ''CSV '' @ [CHR 0xE6, CHR 0x96, CHR 0x87, CHR 0xE4, CHR 0xBB, CHR 0xB6, CHR 0xE4, CHR 0xB8, CHR 0x8D, CHR 0xE5, CHR 0xAD, CHR 0x98, CHR 0xE5, CHR 0x9C, CHR 0xA8] @ '': ''"

definition msg_file_parse :: string where
  "msg_file_parse = ''CSV '' @ [CHR 0xE6, CHR 0x96, CHR 0x87, CHR 0xE4, CHR 0xBB, CHR 0xB6, CHR 0xE8, CHR 0xA7, CHR 0xA3, CHR 0xE6, CHR 0x9E, CHR 0x90, CHR 0xE9, CHR 0x94, CHR 0x99, CHR 0xE8, CHR 0xAF, CHR 0xAF] @ '': ''"

definition msg_encoding :: string where
  "msg_encoding = [CHR 0xE6, CHR 0x96, CHR 0x87, CHR 0xE4, CHR 0xBB, CHR 0xB6, CHR 0xE7, CHR 0xBC, CHR 0x96, CHR 0xE7, CHR 0xA0, CHR 0x81, CHR 0xE9, CHR 0x94, CHR 0x99, CHR 0xE8, CHR 0xAF, CHR 0xAF] @ '': ''"

definition msg_failed :: string where
  "msg_failed = [CHR 0xE8, CHR 0xBD, CHR 0xAC, CHR 0xE6, CHR 0x8D, CHR 0xA2, CHR 0xE5, CHR 0xA4, CHR 0xB1, CHR 0xE8, CHR 0xB4, CHR 0xA5] @ '': ''"

definition msg_content_parse :: string where
  "msg_content_parse = ''CSV '' @ [CHR 0xE5, CHR 0x86, CHR 0x85, CHR 0xE5, CHR 0xAE, CHR 0xB9, CHR 0xE8, CHR 0xA7, CHR 0xA3, CHR 0xE6, CHR 0x9E, CHR 0x90, CHR 0xE9, CHR 0x94, CHR 0x99, CHR 0xE8, CHR 0xAF, CHR 0xAF] @ '': ''"

definition msg_info_failed :: string where
  "msg_info_failed = [CHR 0xE8, CHR 0x8E, CHR 0xB7, CHR 0xE5, CHR 0x8F, CHR 0x96] @ '' CSV '' @ [CHR 0xE6, CHR 0x96, CHR 0x87, CHR 0xE4, CHR 0xBB, CHR 0xB6, CHR 0xE4, CHR 0xBF, CHR 0xA1, CHR 0xE6, CHR 0x81, CHR 0xAF, CHR 0xE5, CHR 0xA4, CHR 0xB1, CHR 0xE8, CHR 0xB4, CHR 0xA5] @ '': ''"

text \<open>
  The loop of the \<open>records\<close> branch:
  \<^verbatim>\<open>for row in data_rows: if len(row) == len(headers): result.append({...})\<close>.
\<close>

fun records_loop :: "string list \<Rightarrow> row list \<Rightarrow> (string \<times> string) list list \<Rightarrow> (string \<times> string) list list" where
  "records_loop headers [] result = result"
| "records_loop headers (row # rest) result =
     records_loop headers rest
       (if length row = length headers then result @ [dict_comp headers row] else result)"

text \<open>\<open>CSVConverter._convert_to_json_format\<close>.\<close>

definition convert_to_json_format ::
  "string list \<Rightarrow> row list \<Rightarrow> CSVConversionOptions \<Rightarrow> exn + string" where
  "convert_to_json_format headers data_rows options =
     (if orient options = ''records'' then
        Inr (json_dumps (indent options)
               (JArr (map json_of_record (records_loop headers data_rows []))))
      else if orient options = ''values'' then
        Inr (json_dumps (indent options) (json_of_rows data_rows))
      else if orient options = ''split'' then
        Inr (json_dumps (indent options)
               (JObj [(''columns'', json_of_row headers), (''data'', json_of_rows data_rows)]))
      else Inl (ValueError (msg_unsupported @ orient options)))"

section \<open>Conversion entry points\<close>

text \<open>
  The \<open>except\<close> clauses of the two file entry points, in the source's order:
  \<open>csv.Error\<close>, \<open>UnicodeDecodeError\<close>, \<open>Exception\<close>.
\<close>

fun file_except :: "exn \<Rightarrow> exn" where
  "file_except (CsvError m) = ValueError (msg_file_parse @ m)"
| "file_except (UnicodeDecodeError m) = ValueError (msg_encoding @ m)"
| "file_except e = ValueError (msg_failed @ str_exn e)"

text \<open>Those of the string entry point: \<open>csv.Error\<close>, \<open>Exception\<close>.\<close>

fun string_except :: "exn \<Rightarrow> exn" where
  "string_except (CsvError m) = ValueError (msg_content_parse @ m)"
| "string_except e = ValueError (msg_failed @ str_exn e)"

text \<open>\<open>if options is None: options = CSVConversionOptions()\<close>.\<close>

definition options_or_default :: "CSVConversionOptions option \<Rightarrow> CSVConversionOptions" where
  "options_or_default options = (case options of None \<Rightarrow> default_options | Some opts \<Rightarrow> opts)"

text \<open>The two statements both \<open>try\<close> bodies start with: read, then convert.\<close>

definition read_and_convert ::
  "stdlib \<Rightarrow> fsys \<Rightarrow> csv_source \<Rightarrow> CSVConversionOptions \<Rightarrow> exn + string" where
  "read_and_convert L fs src options =
     (case read_csv_data L fs src options of
        Inl e \<Rightarrow> Inl e
      | Inr (headers, data_rows) \<Rightarrow> convert_to_json_format headers data_rows options)"


text \<open>
  \<^verbatim>\<open>with open(output_file_path, 'w', encoding=enc) as f: f.write(text)\<close>: opening
  creates or truncates the file; a text that cannot be encoded leaves it empty.
\<close>

definition write_text :: "stdlib \<Rightarrow> fsys \<Rightarrow> string \<Rightarrow> string \<Rightarrow> string \<Rightarrow> (exn + unit) \<times> fsys" where
  "write_text L fs p enc text =
     (case open_w_error L p of
        Some e \<Rightarrow> (Inl e, fs)
      | None \<Rightarrow>
          (case text_encode L enc text of
             Inl e \<Rightarrow> (Inl e, fs(p \<mapsto> []))
           | Inr bytes \<Rightarrow> (Inr (), fs(p \<mapsto> bytes))))"

text \<open>\<open>CSVConverter.convert_csv_to_json_file\<close>: the result and the file system after it.\<close>

definition convert_csv_to_json_file ::
  "stdlib \<Rightarrow> fsys \<Rightarrow> string \<Rightarrow> string option \<Rightarrow> CSVConversionOptions option
     \<Rightarrow> (exn + string) \<times> fsys" where
  "convert_csv_to_json_file L fs csv_file_path output_file_path0 options0 =
     (let options = options_or_default options0;
          csv_path = path_str L csv_file_path
      in if fs csv_path = None then (Inl (FileNotFoundError (msg_not_found @ csv_file_path)), fs)
         else if orient options \<notin> set supported_formats then
           (Inl (ValueError (msg_unsupported @ orient options)), fs)
         else
           (let output_file_path =
                  (case output_file_path0 of
                     None \<Rightarrow> with_suffix_json L csv_file_path
                   | Some p \<Rightarrow> path_str L p)
            in case read_and_convert L fs (SrcPath csv_path) options of
                 Inl e \<Rightarrow> (Inl (file_except e), fs)
               | Inr json_data \<Rightarrow>
                   (case write_text L fs output_file_path ''utf-8'' json_data of
                      (Inl e, fs') \<Rightarrow> (Inl (file_except e), fs')
                    | (Inr u, fs') \<Rightarrow> (Inr output_file_path, fs'))))"

text \<open>\<open>CSVConverter.convert_csv_string_to_json\<close>.\<close>

definition convert_csv_string_to_json ::
  "stdlib \<Rightarrow> fsys \<Rightarrow> string \<Rightarrow> CSVConversionOptions option \<Rightarrow> exn + string" where
  "convert_csv_string_to_json L fs csv_content options0 =
     (let options = options_or_default options0
      in case read_and_convert L fs (SrcText csv_content) options of
           Inl e \<Rightarrow> Inl (string_except e)
         | Inr json_text \<Rightarrow> Inr json_text)"

section \<open>Info Inspector\<close>

text \<open>The dict that \<open>get_csv_info\<close> returns, key by key.\<close>

record csv_info =
  file_size :: nat
  row_count :: nat
  column_count :: nat
  columns :: "string list"
  sample_data :: "(string \<times> string) list list"
  file_encoding :: string
  detected_delimiter :: string

text \<open>
  The sample loop:
  \<^verbatim>\<open>for i, row in enumerate(...): if len(row) == len(headers): sample_data.append({...})\<close>.
\<close>

fun sample_loop :: "string list \<Rightarrow> row list \<Rightarrow> (string \<times> string) list list \<Rightarrow> (string \<times> string) list list" where
  "sample_loop headers [] sample = sample"
| "sample_loop headers (row # rest) sample =
     sample_loop headers rest
       (if length row = length headers then sample @ [dict_comp headers row] else sample)"

text \<open>The body of the \<open>try\<close> of \<open>get_csv_info\<close>, on the content of the file.\<close>

definition csv_info_body :: "stdlib \<Rightarrow> string \<Rightarrow> exn + csv_info" where
  "csv_info_body L bytes =
     (let size = length bytes
      in case take_reader 10 (file_reader L ''utf-8'' '','' bytes) of
           Inl e \<Rightarrow> Inl e
         | Inr rows \<Rightarrow>
             if rows = [] then
               Inr \<lparr>file_size = size, row_count = 0, column_count = 0, columns = [],
                    sample_data = [], file_encoding = ''utf-8'', detected_delimiter = '',''\<rparr>
             else
               (let first_line = rows ! 0;
                    delim = (if length first_line > 1 then '','' else '','')
                in case file_lines L bytes of
                     Inl e \<Rightarrow> Inl e
                   | Inr line_count \<Rightarrow>
                       (let headers = (if length rows > 0 then
                                         (if length (rows ! 0) > 1 then rows ! 0
                                          else column_names (length (rows ! 0)))
                                       else []);
                            sample = (if length rows > 0 then
                                        sample_loop headers
                                          (if length rows > 1 then py_slice rows 1 4 else []) []
                                      else [])
                        in Inr \<lparr>file_size = size,
                                row_count = (if line_count > 1 then line_count - 1 else line_count),
                                column_count = length headers, columns = headers,
                                sample_data = sample, file_encoding = ''utf-8'',
                                detected_delimiter = delim\<rparr>)))"

text \<open>\<open>CSVConverter.get_csv_info\<close>.\<close>

definition get_csv_info :: "stdlib \<Rightarrow> fsys \<Rightarrow> string \<Rightarrow> exn + csv_info" where
  "get_csv_info L fs csv_file_path =
     (case fs (path_str L csv_file_path) of
        None \<Rightarrow> Inl (FileNotFoundError (msg_not_found @ csv_file_path))
      | Some bytes \<Rightarrow>
          (case csv_info_body L bytes of
             Inl e \<Rightarrow> Inl (ValueError (msg_info_failed @ str_exn e))
           | Inr info \<Rightarrow> Inr info))"

section \<open>The remote-callable operations\<close>

text \<open>The result dicts of \<open>server.py\<close>: keys in the order written, values bool or str.\<close>

datatype pyval = PBool bool | PStr string

type_synonym pydict = "(string \<times> pyval) list"

definition srv_file_ok :: string where
  "srv_file_ok = ''CSV '' @ [CHR 0xE6, CHR 0x96, CHR 0x87, CHR 0xE4, CHR 0xBB, CHR 0xB6, CHR 0xE8, CHR 0xBD, CHR 0xAC, CHR 0xE6, CHR 0x8D, CHR 0xA2, CHR 0xE6, CHR 0x88, CHR 0x90, CHR 0xE5, CHR 0x8A, CHR 0x9F, CHR 0xEF, CHR 0xBC, CHR 0x8C] @ ''JSON '' @ [CHR 0xE6, CHR 0x96, CHR 0x87, CHR 0xE4, CHR 0xBB, CHR 0xB6, CHR 0xE5, CHR 0xB7, CHR 0xB2, CHR 0xE7, CHR 0x94, CHR 0x9F, CHR 0xE6, CHR 0x88, CHR 0x90]"

definition srv_missing :: string where
  "srv_missing = [CHR 0xE6, CHR 0x96, CHR 0x87, CHR 0xE4, CHR 0xBB, CHR 0xB6, CHR 0xE4, CHR 0xB8, CHR 0x8D, CHR 0xE5, CHR 0xAD, CHR 0x98, CHR 0xE5, CHR 0x9C, CHR 0xA8]"

definition srv_failed :: string where
  "srv_failed = [CHR 0xE8, CHR 0xBD, CHR 0xAC, CHR 0xE6, CHR 0x8D, CHR 0xA2, CHR 0xE5, CHR 0xA4, CHR 0xB1, CHR 0xE8, CHR 0xB4, CHR 0xA5]"

definition srv_unknown :: string where
  "srv_unknown = [CHR 0xE6, CHR 0x9C, CHR 0xAA, CHR 0xE7, CHR 0x9F, CHR 0xA5, CHR 0xE9, CHR 0x94, CHR 0x99, CHR 0xE8, CHR 0xAF, CHR 0xAF]"

definition srv_string_ok :: string where
  "srv_string_ok = ''CSV '' @ [CHR 0xE5, CHR 0xAD, CHR 0x97, CHR 0xE7, CHR 0xAC, CHR 0xA6, CHR 0xE4, CHR 0xB8, CHR 0xB2, CHR 0xE8, CHR 0xBD, CHR 0xAC, CHR 0xE6, CHR 0x8D, CHR 0xA2, CHR 0xE6, CHR 0x88, CHR 0x90, CHR 0xE5, CHR 0x8A, CHR 0x9F]"

definition failure :: "exn \<Rightarrow> string \<Rightarrow> pydict" where
  "failure e category =
     [(''success'', PBool False), (''error'', PStr (str_exn e)), (''message'', PStr category)]"

text \<open>
  The \<open>except\<close> clauses of \<open>convert_csv_file\<close>: \<open>FileNotFoundError\<close>, \<open>ValueError\<close> (which
  \<open>UnicodeDecodeError\<close> is a subclass of), \<open>Exception\<close>.
\<close>

fun file_tool_except :: "exn \<Rightarrow> pydict" where
  "file_tool_except (FileNotFoundError m) = failure (FileNotFoundError m) srv_missing"
| "file_tool_except (ValueError m) = failure (ValueError m) srv_failed"
| "file_tool_except (UnicodeDecodeError m) = failure (UnicodeDecodeError m) srv_failed"
| "file_tool_except e = failure e srv_unknown"

text \<open>Those of \<open>convert_csv_string\<close>: \<open>ValueError\<close>, \<open>Exception\<close>.\<close>

fun string_tool_except :: "exn \<Rightarrow> pydict" where
  "string_tool_except (ValueError m) = failure (ValueError m) srv_failed"
| "string_tool_except (UnicodeDecodeError m) = failure (UnicodeDecodeError m) srv_failed"
| "string_tool_except e = failure e srv_unknown"

text \<open>The tool \<open>convert_csv_file\<close> of \<open>CSV2JSONServer._setup_tools\<close>.\<close>

definition convert_csv_file ::
  "stdlib \<Rightarrow> fsys \<Rightarrow> string \<Rightarrow> string option \<Rightarrow> string \<Rightarrow> string \<Rightarrow> int \<Rightarrow> bool \<Rightarrow> string
     \<Rightarrow> int option \<Rightarrow> pydict \<times> fsys" where
  "convert_csv_file L fs file_path output_file_path delim enc skip hdr ori ind =
     (let options = \<lparr>delimiter = delim, encoding = enc, skip_rows = skip, header = hdr,
                      orient = ori, indent = ind\<rparr>
      in case convert_csv_to_json_file L fs file_path output_file_path (Some options) of
           (Inr json_file_path, fs') \<Rightarrow>
             ([(''success'', PBool True), (''json_file_path'', PStr json_file_path),
               (''message'', PStr srv_file_ok)], fs')
         | (Inl e, fs') \<Rightarrow> (file_tool_except e, fs'))"

text \<open>
  The tool \<open>convert_csv_string\<close>: it passes no encoding, so the options carry the
  default.
\<close>

definition convert_csv_string ::
  "stdlib \<Rightarrow> fsys \<Rightarrow> string \<Rightarrow> string \<Rightarrow> int \<Rightarrow> bool \<Rightarrow> string \<Rightarrow> int option \<Rightarrow> pydict" where
  "convert_csv_string L fs csv_content delim skip hdr ori ind =
     (let options = \<lparr>delimiter = delim, encoding = ''utf-8'', skip_rows = skip, header = hdr,
                      orient = ori, indent = ind\<rparr>
      in case convert_csv_string_to_json L fs csv_content (Some options) of
           Inr json_result \<Rightarrow>
             [(''success'', PBool True), (''json'', PStr json_result),
              (''message'', PStr srv_string_ok)]
         | Inl e \<Rightarrow> string_tool_except e)"

section \<open>A library instance for quote-free input\<close>

text \<open>
  On text without quotes and with \<open>\n\<close> line ends, \<open>csv.reader\<close> splits lines at the
  line ends and fields at the delimiter, and never raises. This instance of the library
  parameters does just that; paths are taken as they are, text is stored as it is, and
  every file can be written. It gives the concrete inputs of the examples below.
\<close>

fun split_on :: "char \<Rightarrow> string \<Rightarrow> string list" where
  "split_on c [] = [[]]"
| "split_on c (x # xs) =
     (if x = c then [] # split_on c xs
      else (case split_on c xs of [] \<Rightarrow> [[x]] | y # ys \<Rightarrow> (x # y) # ys))"

text \<open>The lines of a text: a final line end starts no further line.\<close>

definition plain_lines :: "string \<Rightarrow> string list" where
  "plain_lines s = (if s = [] then [] else if last s = CHR 0x0A then butlast (split_on (CHR 0x0A) s)
                    else split_on (CHR 0x0A) s)"

text \<open>An empty line is the empty record \<open>[]\<close>, as \<open>csv.reader\<close> yields it.\<close>

definition plain_reader :: "string \<Rightarrow> string \<Rightarrow> reader" where
  "plain_reader delim s =
     (case delim of
        [d] \<Rightarrow> (map (\<lambda>l. if l = [] then [] else split_on d l) (plain_lines s), None)
      | _ \<Rightarrow> ([], Some (OtherException ''delimiter must be a 1-character string'')))"

definition plain_suffix :: "string \<Rightarrow> string" where
  "plain_suffix p = rev (tl (dropWhile (\<lambda>c. c \<noteq> CHR ''.'') (rev p))) @ ''.json''"

definition plain_lib :: stdlib where
  "plain_lib =
     \<lparr>path_str = (\<lambda>p. p), with_suffix_json = plain_suffix,
      file_reader = (\<lambda>enc delim bytes. plain_reader delim bytes),
      string_reader = plain_reader,
      file_lines = (\<lambda>bytes. Inr (length (plain_lines bytes))),
      text_encode = (\<lambda>enc text. Inr text),
      open_w_error = (\<lambda>p. None)\<rparr>"

section \<open>Reading the \<open>values\<close> shape back\<close>

text \<open>
  Modelled from the spec: the "same-shaped reconstruction" of the round-trip property
  reads a serialized \<open>values\<close> output back into a list of rows. The repository has no
  JSON reader; this one accepts JSON text that is an array of arrays of strings, with
  the whitespace, the two-character escapes and the \<open>\u00XX\<close> escapes of JSON, and
  rejects everything else.
\<close>

datatype token = TLBrack | TRBrack | TComma | TString string

definition unhex :: "char \<Rightarrow> nat option" where
  "unhex c =
     (let n = (of_char c :: nat)
      in if 48 \<le> n \<and> n \<le> 57 then Some (n - 48)
         else if 97 \<le> n \<and> n \<le> 102 then Some (n - 87)
         else if 65 \<le> n \<and> n \<le> 70 then Some (n - 55)
         else None)"

text \<open>
  Modelled from the spec: \<open>\uXXXX\<close> is a code unit of the text representation, that is
  a value below 256.
\<close>

definition unhex4 :: "char \<Rightarrow> char \<Rightarrow> char \<Rightarrow> char \<Rightarrow> char option" where
  "unhex4 a b c d =
     (case (unhex a, unhex b, unhex c, unhex d) of
        (Some w, Some x, Some y, Some z) \<Rightarrow>
          (let n = ((w * 16 + x) * 16 + y) * 16 + z
           in if n < 256 then Some (char_of n) else None)
      | _ \<Rightarrow> None)"

definition unescape :: "char \<Rightarrow> char option" where
  "unescape e =
     (if e = CHR 0x22 then Some (CHR 0x22)
      else if e = CHR 0x5C then Some (CHR 0x5C)
      else if e = CHR ''/'' then Some (CHR ''/'')
      else if e = CHR ''n'' then Some (CHR 0x0A)
      else if e = CHR ''r'' then Some (CHR 0x0D)
      else if e = CHR ''t'' then Some (CHR 0x09)
      else if e = CHR ''b'' then Some (CHR 0x08)
      else if e = CHR ''f'' then Some (CHR 0x0C)
      else None)"

definition is_space :: "char \<Rightarrow> bool" where
  "is_space c = (c = CHR '' '' \<or> c = CHR 0x0A \<or> c = CHR 0x0D \<or> c = CHR 0x09)"

text \<open>
  Modelled from the spec: the lexer of the reconstruction, with \<open>None\<close> as first
  argument between tokens and \<open>Some acc\<close> inside a string literal whose characters so
  far are \<open>acc\<close>. A control character inside a literal is an error, as is an unknown
  escape.
\<close>

fun tokenize :: "string option \<Rightarrow> string \<Rightarrow> token list option" where
  "tokenize None [] = Some []"
| "tokenize None (c # cs) =
     (if is_space c then tokenize None cs
      else if c = CHR ''['' then map_option ((#) TLBrack) (tokenize None cs)
      else if c = CHR '']'' then map_option ((#) TRBrack) (tokenize None cs)
      else if c = CHR '','' then map_option ((#) TComma) (tokenize None cs)
      else if c = CHR 0x22 then tokenize (Some []) cs
      else None)"
| "tokenize (Some acc) [] = None"
| "tokenize (Some acc) (c # cs) =
     (if c = CHR 0x22 then map_option ((#) (TString acc)) (tokenize None cs)
      else if c = CHR 0x5C then
        (case cs of
           [] \<Rightarrow> None
         | e # cs' \<Rightarrow>
             if e = CHR ''u'' then
               (case cs' of
                  h1 # h2 # h3 # h4 # cs'' \<Rightarrow>
                    (case unhex4 h1 h2 h3 h4 of
                       None \<Rightarrow> None
                     | Some ch \<Rightarrow> tokenize (Some (acc @ [ch])) cs'')
                | _ \<Rightarrow> None)
             else (case unescape e of
                     None \<Rightarrow> None
                   | Some ch \<Rightarrow> tokenize (Some (acc @ [ch])) cs'))
      else if (of_char c :: nat) < 32 then None
      else tokenize (Some (acc @ [c])) cs)"

text \<open>
  Modelled from the spec: the parser of the reconstruction, on the tokens. Its first
  argument says what was read last; the rows finished so far and the fields of the row
  being read are accumulated.
\<close>

datatype pstate = Start | Opened | InRow | AfterField | FieldComma | AfterRow | RowComma | Closed

fun parse_values :: "pstate \<Rightarrow> row list \<Rightarrow> row \<Rightarrow> token list \<Rightarrow> row list option" where
  "parse_values Start rows cur (TLBrack # ts) = parse_values Opened rows cur ts"
| "parse_values Opened rows cur (TRBrack # ts) = parse_values Closed rows cur ts"
| "parse_values Opened rows cur (TLBrack # ts) = parse_values InRow rows [] ts"
| "parse_values InRow rows cur (TRBrack # ts) = parse_values AfterRow (rows @ [cur]) [] ts"
| "parse_values InRow rows cur (TString s # ts) = parse_values AfterField rows (cur @ [s]) ts"
| "parse_values AfterField rows cur (TComma # ts) = parse_values FieldComma rows cur ts"
| "parse_values AfterField rows cur (TRBrack # ts) = parse_values AfterRow (rows @ [cur]) [] ts"
| "parse_values FieldComma rows cur (TString s # ts) = parse_values AfterField rows (cur @ [s]) ts"
| "parse_values AfterRow rows cur (TComma # ts) = parse_values RowComma rows cur ts"
| "parse_values AfterRow rows cur (TRBrack # ts) = parse_values Closed rows cur ts"
| "parse_values RowComma rows cur (TLBrack # ts) = parse_values InRow rows [] ts"
| "parse_values Closed rows cur [] = Some rows"
| "parse_values st rows cur ts = None"

definition loads_values :: "string \<Rightarrow> row list option" where
  "loads_values text =
     (case tokenize None text of None \<Rightarrow> None | Some ts \<Rightarrow> parse_values Start [] [] ts)"

text \<open>The tokens of a serialized row and of a serialized list of rows.\<close>

definition row_tokens :: "row \<Rightarrow> token list" where
  "row_tokens r =
     TLBrack #
       (case r of [] \<Rightarrow> [] | s # ss \<Rightarrow> TString s # concat (map (\<lambda>t. [TComma, TString t]) ss))
       @ [TRBrack]"

definition rows_tokens :: "row list \<Rightarrow> token list" where
  "rows_tokens rs =
     TLBrack #
       (case rs of [] \<Rightarrow> [] | r # rs' \<Rightarrow> row_tokens r @ concat (map (\<lambda>q. TComma # row_tokens q) rs'))
       @ [TRBrack]"

section \<open>Lemmas: the Table Reader\<close>

lemma py_slice_from_nonneg: "0 \<le> k \<Longrightarrow> py_slice_from xs k = drop (nat k) xs"
  by (simp add: py_slice_from_def)

lemma nth0_hd: "xs \<noteq> [] \<Longrightarrow> xs ! 0 = hd xs"
  by (cases xs) simp_all

lemma slice1_tl: "py_slice_from xs 1 = tl xs"
  by (simp add: py_slice_from_def drop_Suc)

lemma process_rows:
  "process_csv_reader (rows, None) options =
     Inr (let rest = drop (nat (skip_rows options)) rows
          in if rest = [] then ([], [])
             else if header options then (hd rest, tl rest)
             else (map (\<lambda>i. ''column_'' @ str_nat i) [0..<length (hd rest)], rest))"
proof (cases "skip_rows options > 0")
  case True
  then show ?thesis
    by (simp add: process_csv_reader_def py_slice_from_nonneg nth0_hd slice1_tl column_names_def
        Let_def)
next
  case False
  then have "nat (skip_rows options) = 0" by simp
  then show ?thesis using False
    by (simp add: process_csv_reader_def nth0_hd slice1_tl column_names_def Let_def)
qed




section \<open>Lemmas: dict comprehensions and the record loops\<close>

lemma dict_set_keys:
  "map fst (dict_set k v d) = (if k \<in> set (map fst d) then map fst d else map fst d @ [k])"
  by (induction d) (auto simp: dict_set_def)

lemma map_of_replace:
  "map_of (map (\<lambda>kv. if fst kv = k then (k, v) else kv) d) x
     = (if x = k then (if k \<in> set (map fst d) then Some v else None) else map_of d x)"
  by (induction d) (auto simp: rev_image_eqI)

lemma map_of_dict_set: "map_of (dict_set k v d) = (map_of d)(k \<mapsto> v)"
proof (cases "k \<in> set (map fst d)")
  case True
  then show ?thesis by (auto simp: dict_set_def map_of_replace fun_eq_iff)
next
  case False
  then have "map_of d k = None" by (simp add: map_of_eq_None_iff)
  then show ?thesis using False
    by (auto simp: dict_set_def fun_eq_iff map_add_def split: option.splits)
qed

lemma dict_steps_keys:
  "k \<le> length headers \<Longrightarrow>
   map fst (fold (\<lambda>i d. dict_set (headers ! i) (row ! i) d) [0..<k] [])
     = rev (remdups (rev (take k headers)))"
proof (induction k)
  case 0
  show ?case by simp
next
  case (Suc k)
  then have k: "k < length headers" by simp
  show ?case using Suc.IH k
    by (simp add: dict_set_keys take_Suc_conv_app_nth)
qed

lemma dict_steps_lookup:
  "k \<le> length headers \<Longrightarrow> length row = length headers \<Longrightarrow>
   map_of (fold (\<lambda>i d. dict_set (headers ! i) (row ! i) d) [0..<k] [])
     = map_of (rev (zip (take k headers) (take k row)))"
proof (induction k)
  case 0
  show ?case by simp
next
  case (Suc k)
  then have k: "k < length headers" "k < length row" by simp_all
  show ?case using Suc k
    by (simp add: map_of_dict_set take_Suc_conv_app_nth fun_eq_iff map_add_def)
qed

lemma dict_steps_distinct:
  "k \<le> length headers \<Longrightarrow> length row = length headers \<Longrightarrow> distinct headers \<Longrightarrow>
   fold (\<lambda>i d. dict_set (headers ! i) (row ! i) d) [0..<k] []
     = zip (take k headers) (take k row)"
proof (induction k)
  case 0
  show ?case by simp
next
  case (Suc k)
  then have k: "k < length headers" "k < length row" by simp_all
  have "headers ! k \<notin> set (take k headers)"
    using Suc.prems(3) k(1) by (auto simp: in_set_conv_nth distinct_conv_nth)
  then have "headers ! k \<notin> set (map fst (zip (take k headers) (take k row)))"
    using k by simp
  then show ?case using Suc k
    by (simp add: dict_set_def take_Suc_conv_app_nth del: map_fst_zip)
qed

lemma dict_comp_distinct:
  "distinct headers \<Longrightarrow> length row = length headers \<Longrightarrow> dict_comp headers row = zip headers row"
  using dict_steps_distinct [of "length headers" headers row] by (simp add: dict_comp_def)

lemma dict_comp_keys:
  "map fst (dict_comp headers row) = rev (remdups (rev headers))"
  using dict_steps_keys [of "length headers" headers row] by (simp add: dict_comp_def)

lemma dict_comp_lookup:
  "length row = length headers \<Longrightarrow>
   map_of (dict_comp headers row) = map_of (rev (zip headers row))"
  using dict_steps_lookup [of "length headers" headers row] by (simp add: dict_comp_def)

lemma records_loop_filter:
  "records_loop headers rows result
     = result @ map (dict_comp headers) (filter (\<lambda>r. length r = length headers) rows)"
  by (induction rows arbitrary: result) simp_all

lemma sample_loop_filter:
  "sample_loop headers rows sample
     = sample @ map (dict_comp headers) (filter (\<lambda>r. length r = length headers) rows)"
  by (induction rows arbitrary: sample) simp_all

lemma json_of_record_zip:
  "length r = length headers \<Longrightarrow> json_of_record (zip headers r) = JObj (zip headers (map JStr r))"
  by (simp add: json_of_record_def zip_map2 case_prod_unfold)

section \<open>Lemmas: reading a serialized \<open>values\<close> output\<close>

lemma unhex_hex_digit: "d < 16 \<Longrightarrow> unhex (hex_digit d) = Some d"
proof -
  assume "d < 16"
  then have "d \<in> set [0..<16]" by simp
  then show ?thesis
    by (simp add: upt_rec) (elim disjE; simp add: hex_digit_def unhex_def)
qed

lemma unhex_zero: "unhex CHR ''0'' = Some 0"
  by (simp add: unhex_def)

lemma unhex4_control:
  assumes "(of_char c :: nat) < 32"
  shows "unhex4 CHR ''0'' CHR ''0'' (hex_digit ((of_char c :: nat) div 16))
           (hex_digit ((of_char c :: nat) mod 16)) = Some c"
proof -
  let ?n = "of_char c :: nat"
  have d: "?n div 16 < 16" using assms by simp
  have m: "?n mod 16 < 16" by simp
  have "((0 * 16 + 0) * 16 + ?n div 16) * 16 + ?n mod 16 = ?n" by simp
  moreover have "?n < 256" using assms by simp
  ultimately show ?thesis
    by (simp add: unhex4_def unhex_zero unhex_hex_digit [OF d] unhex_hex_digit [OF m])
qed

lemma tokenize_escape_char:
  "tokenize (Some acc) (escape_char c @ rest) = tokenize (Some (acc @ [c])) rest"
proof -
  consider (q) "c = CHR 0x22" | (b) "c = CHR 0x5C" | (n) "c = CHR 0x0A" | (r) "c = CHR 0x0D"
    | (t) "c = CHR 0x09" | (bs) "c = CHR 0x08" | (f) "c = CHR 0x0C"
    | (ctl) "c \<notin> {CHR 0x22, CHR 0x5C, CHR 0x0A, CHR 0x0D, CHR 0x09, CHR 0x08, CHR 0x0C}" "(of_char c :: nat) < 32"
    | (plain) "c \<notin> {CHR 0x22, CHR 0x5C, CHR 0x0A, CHR 0x0D, CHR 0x09, CHR 0x08, CHR 0x0C}" "\<not> (of_char c :: nat) < 32"
    by blast
  then show ?thesis
  proof cases
    case ctl
    then show ?thesis
      by (simp add: escape_char_def unhex4_control)
  next
    case plain
    then show ?thesis by (simp add: escape_char_def)
  qed (simp_all add: escape_char_def unescape_def)
qed

lemma tokenize_string_body:
  "tokenize (Some acc) (concat (map escape_char s) @ CHR 0x22 # rest)
     = map_option ((#) (TString (acc @ s))) (tokenize None rest)"
proof (induction s arbitrary: acc)
  case Nil
  show ?case by simp
next
  case (Cons c s)
  have "tokenize (Some acc) (concat (map escape_char (c # s)) @ CHR 0x22 # rest)
        = tokenize (Some acc) (escape_char c @ (concat (map escape_char s) @ CHR 0x22 # rest))"
    by simp
  also have "\<dots> = tokenize (Some (acc @ [c])) (concat (map escape_char s) @ CHR 0x22 # rest)"
    by (rule tokenize_escape_char)
  also have "\<dots> = map_option ((#) (TString ((acc @ [c]) @ s))) (tokenize None rest)"
    by (rule Cons.IH)
  finally show ?case by simp
qed

lemma tokenize_basestring:
  "tokenize None rest = Some ts \<Longrightarrow> tokenize None (encode_basestring s @ rest) = Some (TString s # ts)"
  using tokenize_string_body [of "[]" s rest]
  by (simp add: encode_basestring_def is_space_def)

lemma tokenize_newline_indent:
  "tokenize None (newline_indent ind level @ rest) = tokenize None rest"
proof (cases ind)
  case None
  then show ?thesis by (simp add: newline_indent_def)
next
  case (Some k)
  have "tokenize None (replicate n CHR '' '' @ rest) = tokenize None rest" for n
    by (induction n) (simp_all add: is_space_def)
  then show ?thesis using Some by (simp add: newline_indent_def is_space_def)
qed

lemma tokenize_item_separator:
  "tokenize None rest = Some ts \<Longrightarrow> tokenize None (item_separator ind @ rest) = Some (TComma # ts)"
  by (cases ind) (simp_all add: item_separator_def is_space_def)

lemma join_Cons: "join sep (x # xs) = x @ concat (map (\<lambda>y. sep @ y) xs)"
  by (induction xs arbitrary: x) simp_all


lemma tokenize_fields:
  assumes "tokenize None rest = Some ts"
  shows "tokenize None
           (concat (map (\<lambda>t. item_separator ind @ newline_indent ind level @ encode_basestring t) ss) @ rest)
         = Some (concat (map (\<lambda>t. [TComma, TString t]) ss) @ ts)"
proof (induction ss)
  case Nil
  show ?case using assms by simp
next
  case (Cons s ss)
  have "tokenize None (newline_indent ind level @ encode_basestring s @
          concat (map (\<lambda>t. item_separator ind @ newline_indent ind level @ encode_basestring t) ss) @ rest)
        = Some (TString s # concat (map (\<lambda>t. [TComma, TString t]) ss) @ ts)"
    by (simp only: tokenize_newline_indent tokenize_basestring [OF Cons.IH])
  from tokenize_item_separator [OF this, of ind] show ?case by simp
qed

lemma tokenize_row:
  assumes "tokenize None rest = Some ts"
  shows "tokenize None (iterencode ind level (json_of_row r) @ rest) = Some (row_tokens r @ ts)"
proof (cases r)
  case Nil
  then show ?thesis using assms
    by (simp add: json_of_row_def row_tokens_def is_space_def)
next
  case (Cons s ss)
  have close: "tokenize None (newline_indent ind level @ '']'' @ rest) = Some (TRBrack # ts)"
    using assms by (simp add: tokenize_newline_indent is_space_def)
  have "tokenize None
          (newline_indent ind (Suc level) @ encode_basestring s @
           concat (map (\<lambda>t. item_separator ind @ newline_indent ind (Suc level) @ encode_basestring t) ss) @ newline_indent ind level @ '']'' @ rest)
        = Some (TString s # concat (map (\<lambda>t. [TComma, TString t]) ss) @ TRBrack # ts)"
    by (simp only: tokenize_newline_indent [of ind "Suc level"]
          tokenize_basestring [OF tokenize_fields [OF close]])
  then show ?thesis using Cons
    by (simp add: json_of_row_def row_tokens_def join_Cons is_space_def comp_def del: join.simps)
qed

lemma tokenize_more_rows:
  assumes "tokenize None rest = Some ts"
  shows "tokenize None
           (concat (map (\<lambda>q. item_separator ind @ newline_indent ind level
                                  @ iterencode ind level (json_of_row q)) rs) @ rest)
         = Some (concat (map (\<lambda>q. TComma # row_tokens q) rs) @ ts)"
proof (induction rs)
  case Nil
  show ?case using assms by simp
next
  case (Cons r rs)
  have "tokenize None (newline_indent ind level @ iterencode ind level (json_of_row r) @
          concat (map (\<lambda>q. item_separator ind @ newline_indent ind level
                                @ iterencode ind level (json_of_row q)) rs) @ rest)
        = Some (row_tokens r @ concat (map (\<lambda>q. TComma # row_tokens q) rs) @ ts)"
    by (simp only: tokenize_newline_indent tokenize_row [OF Cons.IH])
  from tokenize_item_separator [OF this, of ind] show ?case by simp
qed

lemma tokenize_rows:
  "tokenize None (json_dumps ind (json_of_rows rs)) = Some (rows_tokens rs)"
proof (cases rs)
  case Nil
  then show ?thesis
    by (simp add: json_dumps_def json_of_rows_def rows_tokens_def is_space_def)
next
  case (Cons r rs')
  have close: "tokenize None (newline_indent ind 0 @ '']'') = Some [TRBrack]"
    by (simp add: tokenize_newline_indent is_space_def)
  have "tokenize None
          (newline_indent ind (Suc 0) @ iterencode ind (Suc 0) (json_of_row r) @
           concat (map (\<lambda>q. item_separator ind @ newline_indent ind (Suc 0)
                                 @ iterencode ind (Suc 0) (json_of_row q)) rs') @
           newline_indent ind 0 @ '']'')
        = Some (row_tokens r @ concat (map (\<lambda>q. TComma # row_tokens q) rs') @ [TRBrack])"
    by (simp only: tokenize_newline_indent [of ind "Suc 0"]
          tokenize_row [OF tokenize_more_rows [OF close]])
  then show ?thesis using Cons
    by (simp add: json_dumps_def json_of_rows_def rows_tokens_def join_Cons is_space_def comp_def del: join.simps)
qed

lemma parse_fields:
  "parse_values AfterField rows cur (concat (map (\<lambda>t. [TComma, TString t]) ss) @ TRBrack # ts)
     = parse_values AfterRow (rows @ [cur @ ss]) [] ts"
  by (induction ss arbitrary: cur) simp_all

lemma parse_row:
  "parse_values InRow rows [] (tl (row_tokens r) @ ts) = parse_values AfterRow (rows @ [r]) [] ts"
proof (cases r)
  case Nil
  then show ?thesis by (simp add: row_tokens_def)
next
  case (Cons s ss)
  then show ?thesis using parse_fields [of rows "[s]" ss ts] by (simp add: row_tokens_def)
qed

lemma parse_row_comma:
  "parse_values RowComma rows [] (row_tokens r @ ts)
     = parse_values InRow rows [] (tl (row_tokens r) @ ts)"
  by (simp add: row_tokens_def)

lemma parse_first_row:
  "parse_values Opened [] [] (row_tokens r @ ts)
     = parse_values InRow [] [] (tl (row_tokens r) @ ts)"
  by (simp add: row_tokens_def)

lemma parse_more_rows:
  "parse_values AfterRow rows [] (concat (map (\<lambda>q. TComma # row_tokens q) rs) @ TRBrack # ts)
     = parse_values Closed (rows @ rs) [] ts"
proof (induction rs arbitrary: rows)
  case Nil
  show ?case by simp
next
  case (Cons r rs)
  have "parse_values AfterRow rows []
          (concat (map (\<lambda>q. TComma # row_tokens q) (r # rs)) @ TRBrack # ts)
        = parse_values InRow rows []
            (tl (row_tokens r) @ concat (map (\<lambda>q. TComma # row_tokens q) rs) @ TRBrack # ts)"
    by (simp add: parse_row_comma)
  also have "\<dots> = parse_values AfterRow (rows @ [r]) []
                     (concat (map (\<lambda>q. TComma # row_tokens q) rs) @ TRBrack # ts)"
    by (rule parse_row)
  also have "\<dots> = parse_values Closed ((rows @ [r]) @ rs) [] ts"
    by (rule Cons.IH)
  finally show ?case by simp
qed

lemma parse_rows_tokens: "parse_values Start [] [] (rows_tokens rs) = Some rs"
proof (cases rs)
  case Nil
  then show ?thesis by (simp add: rows_tokens_def)
next
  case (Cons r rs')
  have "parse_values Start [] [] (rows_tokens rs)
        = parse_values InRow [] []
            (tl (row_tokens r) @ concat (map (\<lambda>q. TComma # row_tokens q) rs') @ TRBrack # [])"
    using Cons by (simp add: rows_tokens_def parse_first_row)
  also have "\<dots> = parse_values AfterRow [r] []
                     (concat (map (\<lambda>q. TComma # row_tokens q) rs') @ TRBrack # [])"
    using parse_row [of "[]" r] by simp
  also have "\<dots> = parse_values Closed ([r] @ rs') [] []"
    by (rule parse_more_rows)
  finally show ?thesis using Cons by simp
qed

lemma loads_dumps_values: "loads_values (json_dumps ind (json_of_rows rs)) = Some rs"
  by (simp add: loads_values_def tokenize_rows parse_rows_tokens)

section \<open>Lemmas: the Info Inspector and the entry points\<close>

lemma info_of_readable_file:
  assumes exists: "fs (path_str L p) = Some bytes"
    and reader: "file_reader L ''utf-8'' '','' bytes = (recs, err)"
    and complete: "err = None \<or> 10 < length recs"
    and lines: "recs = [] \<or> file_lines L bytes = Inr n"
  shows "get_csv_info L fs p =
           Inr (if recs = [] then
                  \<lparr>file_size = length bytes, row_count = 0, column_count = 0, columns = [],
                   sample_data = [], file_encoding = ''utf-8'', detected_delimiter = '',''\<rparr>
                else
                  (let hdr = (if length (hd recs) > 1 then hd recs
                              else column_names (length (hd recs)))
                   in \<lparr>file_size = length bytes,
                       row_count = (if n > 1 then n - 1 else n),
                       column_count = length hdr, columns = hdr,
                       sample_data = map (dict_comp hdr)
                                       (filter (\<lambda>r. length r = length hdr)
                                          (take 3 (tl (take 10 recs)))),
                       file_encoding = ''utf-8'', detected_delimiter = '',''\<rparr>))"
proof -
  have rows: "take_reader 10 (file_reader L ''utf-8'' '','' bytes) = Inr (take 10 recs)"
    using reader complete by (auto simp: take_reader_def)
  show ?thesis
  proof (cases "recs = []")
    case True
    then show ?thesis using exists rows
      by (simp add: get_csv_info_def csv_info_body_def)
  next
    case False
    then have ne: "take 10 recs \<noteq> []" by simp
    have hd10: "take 10 recs ! 0 = hd recs" using False by (cases recs) simp_all
    have n: "file_lines L bytes = Inr n" using lines False by simp
    have sl: "py_slice (take 10 recs) (Suc 0) 4 = take 3 (tl (take 10 recs))"
      by (simp add: py_slice_def drop_Suc)
    have short: "\<not> Suc 0 < length recs \<Longrightarrow> tl recs = []"
      by (cases recs) simp_all
    show ?thesis using exists rows False n
      by (simp add: get_csv_info_def csv_info_body_def Let_def hd10 sl sample_loop_filter short)
  qed
qed

lemma info_reader_raises:
  assumes "fs (path_str L p) = Some bytes"
    and "file_reader L ''utf-8'' '','' bytes = (recs, Some e)"
    and "length recs \<le> 10"
  shows "get_csv_info L fs p = Inl (ValueError (msg_info_failed @ str_exn e))"
  using assms by (simp add: get_csv_info_def csv_info_body_def take_reader_def)

lemma info_lines_raise:
  assumes "fs (path_str L p) = Some bytes"
    and "file_reader L ''utf-8'' '','' bytes = (recs, err)"
    and "err = None \<or> 10 < length recs"
    and "recs \<noteq> []"
    and "file_lines L bytes = Inl e"
  shows "get_csv_info L fs p = Inl (ValueError (msg_info_failed @ str_exn e))"
proof -
  have "take_reader 10 (file_reader L ''utf-8'' '','' bytes) = Inr (take 10 recs)"
    using assms(2,3) by (auto simp: take_reader_def)
  then show ?thesis using assms(1,4,5)
    by (simp add: get_csv_info_def csv_info_body_def Let_def)
qed







section \<open>The claims\<close>

text \<open>
  C3. The Table Reader drops the first \<open>skip_rows\<close> records of what the reader yields.
  If none remain, the header and the rows are empty. Otherwise, with \<open>header\<close> set the
  first remaining record is the header and the rest are the rows; without it the header is
  \<open>column_0 .. column_{n-1}\<close> for the width \<open>n\<close> of the first remaining record, and all
  remaining records are rows. A reader that raises makes the Table Reader raise the same.
  For a width of 3 the synthesized header is \<open>column_0, column_1, column_2\<close>.
\<close>

theorem table_reader_contract:
  "process_csv_reader (rows, None) options =
     Inr (let rest = drop (nat (skip_rows options)) rows
          in if rest = [] then ([], [])
             else if header options then (hd rest, tl rest)
             else (map (\<lambda>i. ''column_'' @ str_nat i) [0..<length (hd rest)], rest))
   \<and> process_csv_reader (rows, Some e) options = Inl e
   \<and> column_names 3 = [''column_0'', ''column_1'', ''column_2'']"
proof -
  have "column_names 3 = [''column_0'', ''column_1'', ''column_2'']"
    by (simp add: column_names_def upt_rec str_nat.simps digit_char_def)
  then show ?thesis
    by (simp add: process_rows) (simp add: process_csv_reader_def)
qed




text \<open>
  C2 (as amended). For a header whose entries are pairwise distinct, the \<open>records\<close>
  output holds exactly the rows whose field count equals the header's length, in input
  order, each as one object whose keys are the header entries in order and whose values
  are the fields of the row; rows of any other length are left out without an error. For
  any header, each such row becomes the dict of the comprehension: a name that repeats in
  the header is one key, at the place of its first occurrence, holding the field of its
  last occurrence.
\<close>

theorem records_of_matching_rows:
  "(distinct headers \<longrightarrow>
      convert_to_json_format headers rows (options\<lparr>orient := ''records''\<rparr>)
        = Inr (json_dumps (indent options)
                 (JArr (map (\<lambda>r. JObj (zip headers (map JStr r)))
                          (filter (\<lambda>r. length r = length headers) rows)))))
   \<and> convert_to_json_format headers rows (options\<lparr>orient := ''records''\<rparr>)
        = Inr (json_dumps (indent options)
                 (JArr (map (\<lambda>r. json_of_record (dict_comp headers r))
                          (filter (\<lambda>r. length r = length headers) rows))))
   \<and> (\<forall>r. length r = length headers \<longrightarrow>
          map fst (dict_comp headers r) = rev (remdups (rev headers))
        \<and> map_of (dict_comp headers r) = map_of (rev (zip headers r)))"
proof -
  have gen: "convert_to_json_format headers rows (options\<lparr>orient := ''records''\<rparr>)
        = Inr (json_dumps (indent options)
                 (JArr (map (\<lambda>r. json_of_record (dict_comp headers r))
                          (filter (\<lambda>r. length r = length headers) rows))))"
    by (simp add: convert_to_json_format_def records_loop_filter comp_def)
  have eq: "map (\<lambda>r. json_of_record (dict_comp headers r))
              (filter (\<lambda>r. length r = length headers) rows)
        = map (\<lambda>r. JObj (zip headers (map JStr r)))
              (filter (\<lambda>r. length r = length headers) rows)" if "distinct headers"
    using that by (simp add: dict_comp_distinct json_of_record_zip)
  have dist: "distinct headers \<longrightarrow>
      convert_to_json_format headers rows (options\<lparr>orient := ''records''\<rparr>)
        = Inr (json_dumps (indent options)
                 (JArr (map (\<lambda>r. JObj (zip headers (map JStr r)))
                          (filter (\<lambda>r. length r = length headers) rows))))"
  proof
    assume "distinct headers"
    from eq [OF this] gen show "convert_to_json_format headers rows (options\<lparr>orient := ''records''\<rparr>)
        = Inr (json_dumps (indent options)
                 (JArr (map (\<lambda>r. JObj (zip headers (map JStr r)))
                          (filter (\<lambda>r. length r = length headers) rows))))"
      by (simp only:)
  qed
  have dup: "\<forall>r. length r = length headers \<longrightarrow>
          map fst (dict_comp headers r) = rev (remdups (rev headers))
        \<and> map_of (dict_comp headers r) = map_of (rev (zip headers r))"
    by (simp add: dict_comp_keys dict_comp_lookup)
  from dist gen dup show ?thesis by blast
qed

text \<open>
  An instance: a two-column header, one ragged row between two matching rows; and the
  keys and the lookup of a dict built from a header that repeats a name.
\<close>

theorem records_of_matching_rows_witness:
  "distinct [''name'', ''age'']
   \<and> convert_to_json_format [''name'', ''age''] [[''Alice'', ''25''], [''Bob''], [''Eve'', ''41'']]
         (default_options\<lparr>orient := ''records''\<rparr>)
       = Inr (json_dumps None
                (JArr [JObj [(''name'', JStr ''Alice''), (''age'', JStr ''25'')],
                       JObj [(''name'', JStr ''Eve''), (''age'', JStr ''41'')]]))
   \<and> map fst (dict_comp [''a'', ''b'', ''a''] [''1'', ''2'', ''3'']) = [''a'', ''b'']
   \<and> map_of (dict_comp [''a'', ''b'', ''a''] [''1'', ''2'', ''3'']) ''a'' = Some ''3''"
proof -
  have h: "distinct [''name'', ''age'']" by simp
  have i: "indent (default_options) = None" by (simp add: default_options_def)
  from records_of_matching_rows [of "[''name'', ''age'']"
      "[[''Alice'', ''25''], [''Bob''], [''Eve'', ''41'']]" default_options]
    records_of_matching_rows [of "[''a'', ''b'', ''a'']" "[]" default_options]
  show ?thesis using h by (simp add: i)
qed

text \<open>
  With the header \<open>a, a\<close> and the row \<open>1, 2\<close> the output is \<open>[{"a": "2"}]\<close>: one
  key, not the two header entries, and the field \<open>1\<close> is gone.
\<close>

theorem records_duplicate_header_counterexample:
  "convert_to_json_format [''a'', ''a''] [[''1'', ''2'']] default_options
     = Inr (''[{'' @ [CHR 0x22] @ ''a'' @ [CHR 0x22] @ '': '' @ [CHR 0x22] @ ''2'' @ [CHR 0x22] @ ''}]'')
   \<and> convert_to_json_format [''a'', ''a''] [[''1'', ''2'']] default_options
     \<noteq> Inr (json_dumps None (JArr [JObj [(''a'', JStr ''1''), (''a'', JStr ''2'')]]))"
  by code_simp

text \<open>
  C4. The two tools return a dict for every input and every outcome of the converter:
  when the converter returns, \<open>success\<close> is true and the dict carries the path (or the
  JSON text) and a message; when the converter raises any exception \<open>e\<close>, \<open>success\<close> is
  false and the dict carries \<open>str(e)\<close> under \<open>error\<close> and one of the category messages.
\<close>

theorem tools_return_envelopes:
  "(case convert_csv_to_json_file L fs file_path output_file_path
           (Some \<lparr>delimiter = delim, encoding = enc, skip_rows = skip, header = hdr,
                   orient = ori, indent = ind\<rparr>) of
      (Inr json_file_path, fs') \<Rightarrow>
        convert_csv_file L fs file_path output_file_path delim enc skip hdr ori ind
          = ([(''success'', PBool True), (''json_file_path'', PStr json_file_path),
              (''message'', PStr srv_file_ok)], fs')
    | (Inl e, fs') \<Rightarrow>
        (\<exists>category. category \<in> set [srv_missing, srv_failed, srv_unknown] \<and>
           convert_csv_file L fs file_path output_file_path delim enc skip hdr ori ind
             = ([(''success'', PBool False), (''error'', PStr (str_exn e)),
                 (''message'', PStr category)], fs')))
   \<and> (case convert_csv_string_to_json L fs csv_content
             (Some \<lparr>delimiter = delim, encoding = ''utf-8'', skip_rows = skip, header = hdr,
                     orient = ori, indent = ind\<rparr>) of
        Inr json_result \<Rightarrow>
          convert_csv_string L fs csv_content delim skip hdr ori ind
            = [(''success'', PBool True), (''json'', PStr json_result),
               (''message'', PStr srv_string_ok)]
      | Inl e \<Rightarrow>
          (\<exists>category. category \<in> set [srv_failed, srv_unknown] \<and>
             convert_csv_string L fs csv_content delim skip hdr ori ind
               = [(''success'', PBool False), (''error'', PStr (str_exn e)),
                  (''message'', PStr category)]))"
proof -
  have f: "\<exists>category. category \<in> set [srv_missing, srv_failed, srv_unknown] \<and>
             file_tool_except e = [(''success'', PBool False), (''error'', PStr (str_exn e)),
                 (''message'', PStr category)]" for e
    by (cases e) (simp_all add: failure_def)
  have g: "\<exists>category. category \<in> set [srv_failed, srv_unknown] \<and>
             string_tool_except e = [(''success'', PBool False), (''error'', PStr (str_exn e)),
                 (''message'', PStr category)]" for e
    by (cases e) (simp_all add: failure_def)
  show ?thesis
    using f g by (simp add: convert_csv_file_def convert_csv_string_def Let_def split: prod.splits sum.splits)
qed

text \<open>
  C5. The \<open>values\<close> output is the serialization of the rows as they are: one inner array
  per data row, in order, each with the fields of the row in order. The \<open>split\<close> output
  is the serialization of an object whose \<open>columns\<close> is the header and whose \<open>data\<close> is
  the same unfiltered rows.
\<close>

theorem values_and_split_unfiltered:
  "convert_to_json_format headers rows (options\<lparr>orient := ''values''\<rparr>)
     = Inr (json_dumps (indent options) (JArr (map (\<lambda>r. JArr (map JStr r)) rows)))
   \<and> convert_to_json_format headers rows (options\<lparr>orient := ''split''\<rparr>)
     = Inr (json_dumps (indent options)
              (JObj [(''columns'', JArr (map JStr headers)),
                     (''data'', JArr (map (\<lambda>r. JArr (map JStr r)) rows))]))"
proof -
  have m: "map json_of_row rows = map (\<lambda>r. JArr (map JStr r)) rows"
    by (simp add: json_of_row_def)
  show ?thesis
    by (simp add: convert_to_json_format_def json_of_rows_def json_of_row_def m)
qed



text \<open>
  C7 (as amended). For an existing file whose first records can be read (the reader raises
  nothing, or yields more than 10 records before it does) and whose lines can be counted:
  the Info Inspector returns the size in bytes; a row count that is the line count minus
  one when there is more than one line and the line count itself otherwise; as header the
  first record when it has more than one field and \<open>column_0 ..\<close> of its width otherwise;
  the column count; as sample the records among the second to fourth of the first 10
  whose width is the header's, as dicts; the encoding \<open>utf-8\<close> and the delimiter \<open>,\<close>.
  A file with no records gives zero counts and empty lists. A file that cannot be read
  fails with a \<open>ValueError\<close> that carries the text of the exception: when the reader
  raises within the records the loop asks for, and when the reader yields a record but
  counting the lines raises.
\<close>

theorem info_inspector_contract:
  assumes exists: "fs (path_str L p) = Some bytes"
    and reader: "file_reader L ''utf-8'' '','' bytes = (recs, err)"
  shows "((err = None \<or> 10 < length recs) \<and> (recs = [] \<or> file_lines L bytes = Inr n) \<longrightarrow>
          get_csv_info L fs p =
            Inr (if recs = [] then
                   \<lparr>file_size = length bytes, row_count = 0, column_count = 0, columns = [],
                    sample_data = [], file_encoding = ''utf-8'', detected_delimiter = '',''\<rparr>
                 else
                   (let hdr = (if length (hd recs) > 1 then hd recs
                               else column_names (length (hd recs)))
                    in \<lparr>file_size = length bytes,
                        row_count = (if n > 1 then n - 1 else n),
                        column_count = length hdr, columns = hdr,
                        sample_data = map (dict_comp hdr)
                                        (filter (\<lambda>r. length r = length hdr)
                                           (take 3 (tl (take 10 recs)))),
                        file_encoding = ''utf-8'', detected_delimiter = '',''\<rparr>)))
       \<and> (\<forall>e. err = Some e \<and> length recs \<le> 10 \<longrightarrow>
              get_csv_info L fs p = Inl (ValueError (msg_info_failed @ str_exn e)))
       \<and> (\<forall>e. (err = None \<or> 10 < length recs) \<and> recs \<noteq> [] \<and> file_lines L bytes = Inl e \<longrightarrow>
              get_csv_info L fs p = Inl (ValueError (msg_info_failed @ str_exn e)))"
proof (intro conjI impI allI)
  assume "(err = None \<or> 10 < length recs) \<and> (recs = [] \<or> file_lines L bytes = Inr n)"
  then have c: "err = None \<or> 10 < length recs" and l: "recs = [] \<or> file_lines L bytes = Inr n"
    by simp_all
  show "get_csv_info L fs p =
            Inr (if recs = [] then
                   \<lparr>file_size = length bytes, row_count = 0, column_count = 0, columns = [],
                    sample_data = [], file_encoding = ''utf-8'', detected_delimiter = '',''\<rparr>
                 else
                   (let hdr = (if length (hd recs) > 1 then hd recs
                               else column_names (length (hd recs)))
                    in \<lparr>file_size = length bytes,
                        row_count = (if n > 1 then n - 1 else n),
                        column_count = length hdr, columns = hdr,
                        sample_data = map (dict_comp hdr)
                                        (filter (\<lambda>r. length r = length hdr)
                                           (take 3 (tl (take 10 recs)))),
                        file_encoding = ''utf-8'', detected_delimiter = '',''\<rparr>))"
    by (rule info_of_readable_file [where fs = fs and L = L and p = p and bytes = bytes
          and recs = recs and err = err and n = n, OF exists reader c l])
next
  fix e
  assume "err = Some e \<and> length recs \<le> 10"
  then show "get_csv_info L fs p = Inl (ValueError (msg_info_failed @ str_exn e))"
    using info_reader_raises [where fs = fs and L = L and p = p and bytes = bytes
        and recs = recs and e = e, OF exists] reader by simp
next
  fix e
  assume "(err = None \<or> 10 < length recs) \<and> recs \<noteq> [] \<and> file_lines L bytes = Inl e"
  then show "get_csv_info L fs p = Inl (ValueError (msg_info_failed @ str_exn e))"
    using info_lines_raise [where fs = fs and L = L and p = p and bytes = bytes
        and recs = recs and err = err and e = e, OF exists reader] by simp
qed

text \<open>
  Instances: a file with a header line, a matching line and a ragged line; a file whose
  bytes cannot be decoded, so that the reader raises; and a file whose line count raises.
\<close>

theorem info_inspector_contract_witness:
  "get_csv_info plain_lib
     [''a.csv'' \<mapsto> ''a,b'' @ [CHR 0x0A] @ ''1,2'' @ [CHR 0x0A] @ ''3'' @ [CHR 0x0A]] ''a.csv''
     = Inr \<lparr>file_size = 10, row_count = 2, column_count = 2, columns = [''a'', ''b''],
            sample_data = [[(''a'', ''1''), (''b'', ''2'')]], file_encoding = ''utf-8'',
            detected_delimiter = '',''\<rparr>
   \<and> get_csv_info
         (plain_lib\<lparr>file_reader :=
            (\<lambda>enc delim bytes. ([], Some (UnicodeDecodeError ''invalid start byte'')))\<rparr>)
         [''b.csv'' \<mapsto> [CHR 0xFF]] ''b.csv''
     = Inl (ValueError (msg_info_failed @ ''invalid start byte''))
   \<and> get_csv_info
         (plain_lib\<lparr>file_lines := (\<lambda>bytes. Inl (UnicodeDecodeError ''invalid start byte''))\<rparr>)
         [''a.csv'' \<mapsto> ''a,b''] ''a.csv''
     = Inl (ValueError (msg_info_failed @ ''invalid start byte''))"
proof -
  let ?b = "''a,b'' @ [CHR 0x0A] @ ''1,2'' @ [CHR 0x0A] @ ''3'' @ [CHR 0x0A]"
  let ?R = "plain_lib\<lparr>file_reader :=
              (\<lambda>enc delim bytes. ([], Some (UnicodeDecodeError ''invalid start byte'')))\<rparr>"
  let ?C = "plain_lib\<lparr>file_lines := (\<lambda>bytes. Inl (UnicodeDecodeError ''invalid start byte''))\<rparr>"
  have dc: "dict_comp [''a'', ''b''] [''1'', ''2''] = [(''a'', ''1''), (''b'', ''2'')]"
    by code_simp
  have h1: "[''a.csv'' \<mapsto> ?b] (path_str plain_lib ''a.csv'') = Some ?b"
    by (simp add: plain_lib_def)
  have h2: "file_reader plain_lib ''utf-8'' '','' ?b = ([[''a'', ''b''], [''1'', ''2''], [''3'']], None)"
    by code_simp
  have h3: "file_lines plain_lib ?b = Inr 3"
    by code_simp
  have ok: "get_csv_info plain_lib [''a.csv'' \<mapsto> ?b] ''a.csv''
     = Inr \<lparr>file_size = 10, row_count = 2, column_count = 2, columns = [''a'', ''b''],
            sample_data = [[(''a'', ''1''), (''b'', ''2'')]], file_encoding = ''utf-8'',
            detected_delimiter = '',''\<rparr>"
    using info_inspector_contract [where fs = "[''a.csv'' \<mapsto> ?b]" and L = plain_lib
      and p = "''a.csv''" and bytes = ?b and recs = "[[''a'', ''b''], [''1'', ''2''], [''3'']]"
      and err = None and n = 3, OF h1 h2] h3
    by (simp add: Let_def dc eval_nat_numeral)
  have r1: "[''b.csv'' \<mapsto> [CHR 0xFF]] (path_str ?R ''b.csv'') = Some [CHR 0xFF]"
    by (simp add: plain_lib_def)
  have r2: "file_reader ?R ''utf-8'' '','' [CHR 0xFF]
              = ([], Some (UnicodeDecodeError ''invalid start byte''))"
    by simp
  have bad: "get_csv_info ?R [''b.csv'' \<mapsto> [CHR 0xFF]] ''b.csv''
     = Inl (ValueError (msg_info_failed @ ''invalid start byte''))"
    using info_inspector_contract [where fs = "[''b.csv'' \<mapsto> [CHR 0xFF]]" and L = ?R
      and p = "''b.csv''" and bytes = "[CHR 0xFF]" and recs = "[]"
      and err = "Some (UnicodeDecodeError ''invalid start byte'')", OF r1 r2]
    by simp
  have c1: "[''a.csv'' \<mapsto> ''a,b''] (path_str ?C ''a.csv'') = Some ''a,b''"
    by (simp add: plain_lib_def)
  have c2: "file_reader ?C ''utf-8'' '','' ''a,b'' = ([[''a'', ''b'']], None)"
    by code_simp
  have c3: "file_lines ?C ''a,b'' = Inl (UnicodeDecodeError ''invalid start byte'')"
    by simp
  have cnt: "get_csv_info ?C [''a.csv'' \<mapsto> ''a,b''] ''a.csv''
     = Inl (ValueError (msg_info_failed @ ''invalid start byte''))"
    using info_inspector_contract [where fs = "[''a.csv'' \<mapsto> ''a,b'']" and L = ?C
      and p = "''a.csv''" and bytes = "''a,b''" and recs = "[[''a'', ''b'']]"
      and err = None, OF c1 c2] c3
    by simp
  from ok bad cnt show ?thesis by simp
qed

text \<open>
  A file of one line has row count 1, not the line count minus one; a file of one column
  gets the header \<open>column_0\<close>, not its first record; and an existing file that cannot
  be decoded gets no result but a \<open>ValueError\<close>.
\<close>

theorem info_row_count_counterexample:
  "get_csv_info plain_lib [''a.csv'' \<mapsto> ''a,b'' @ [CHR 0x0A]] ''a.csv''
     = Inr \<lparr>file_size = 4, row_count = 1, column_count = 2, columns = [''a'', ''b''],
            sample_data = [], file_encoding = ''utf-8'', detected_delimiter = '',''\<rparr>
   \<and> file_lines plain_lib (''a,b'' @ [CHR 0x0A]) = Inr 1
   \<and> get_csv_info plain_lib [''n.csv'' \<mapsto> ''name'' @ [CHR 0x0A] @ ''Bob'' @ [CHR 0x0A]] ''n.csv''
     = Inr \<lparr>file_size = 9, row_count = 1, column_count = 1, columns = [''column_0''],
            sample_data = [[(''column_0'', ''Bob'')]], file_encoding = ''utf-8'',
            detected_delimiter = '',''\<rparr>
   \<and> get_csv_info
         (plain_lib\<lparr>file_reader :=
            (\<lambda>enc delim bytes. ([], Some (UnicodeDecodeError ''invalid start byte'')))\<rparr>)
         [''b.csv'' \<mapsto> [CHR 0xFF]] ''b.csv''
     = Inl (ValueError (msg_info_failed @ ''invalid start byte''))"
  by code_simp

text \<open>
  C8. The serialized \<open>values\<close> output reads back as the same list of rows, and
  serializing what was read with the same options gives the same text again.
\<close>

theorem values_round_trip:
  "(case convert_to_json_format headers rows (options\<lparr>orient := ''values''\<rparr>) of
      Inl e \<Rightarrow> False
    | Inr text \<Rightarrow>
        (case loads_values text of
           None \<Rightarrow> False
         | Some rows' \<Rightarrow>
             rows' = rows
           \<and> convert_to_json_format headers' rows' (options\<lparr>orient := ''values''\<rparr>) = Inr text))"
proof -
  let ?text = "json_dumps (indent options) (json_of_rows rows)"
  have out: "convert_to_json_format hs rs (options\<lparr>orient := ''values''\<rparr>)
               = Inr (json_dumps (indent options) (json_of_rows rs))" for hs rs
    by (simp add: convert_to_json_format_def)
  have reread: "loads_values ?text = Some rows"
    by (rule loads_dumps_values)
  show ?thesis
    by (simp add: out reread)
qed




text \<open>
  C10. When \<open>convert_csv_to_json_file\<close> returns a path, the file at that path holds the
  JSON text encoded as UTF-8, whatever the \<open>encoding\<close> option says; that option is used
  for reading the source only.
\<close>

theorem output_written_as_utf8:
  assumes "convert_csv_to_json_file L fs p out options = (Inr q, fs')"
  shows "\<exists>json_data bytes.
           read_and_convert L fs (SrcPath (path_str L p)) (options_or_default options) = Inr json_data
         \<and> text_encode L ''utf-8'' json_data = Inr bytes
         \<and> fs' = fs(q \<mapsto> bytes)"
  using assms
  by (auto simp: convert_csv_to_json_file_def write_text_def Let_def
      split: if_splits sum.splits option.splits prod.splits)


text \<open>
  An instance: a library whose encoder marks the bytes with the name of the encoding it
  was asked for, and \<open>encoding = gbk\<close> in the options. The output file is marked
  \<open>utf-8\<close>.
\<close>

theorem output_written_as_utf8_witness:
  "fst (convert_csv_to_json_file
          (plain_lib\<lparr>text_encode := (\<lambda>enc text. Inr (enc @ '':'' @ text))\<rparr>)
          [''a.csv'' \<mapsto> ''x,y''] ''a.csv'' None
          (Some (default_options\<lparr>encoding := ''gbk'', orient := ''values''\<rparr>)))
     = Inr ''a.json''
   \<and> snd (convert_csv_to_json_file
          (plain_lib\<lparr>text_encode := (\<lambda>enc text. Inr (enc @ '':'' @ text))\<rparr>)
          [''a.csv'' \<mapsto> ''x,y''] ''a.csv'' None
          (Some (default_options\<lparr>encoding := ''gbk'', orient := ''values''\<rparr>))) ''a.json''
     = Some ''utf-8:[]''
   \<and> (\<exists>json_data bytes.
         text_encode (plain_lib\<lparr>text_encode := (\<lambda>enc text. Inr (enc @ '':'' @ text))\<rparr>)
           ''utf-8'' json_data = Inr bytes
       \<and> snd (convert_csv_to_json_file
                 (plain_lib\<lparr>text_encode := (\<lambda>enc text. Inr (enc @ '':'' @ text))\<rparr>)
                 [''a.csv'' \<mapsto> ''x,y''] ''a.csv'' None
                 (Some (default_options\<lparr>encoding := ''gbk'', orient := ''values''\<rparr>)))
           = [''a.csv'' \<mapsto> ''x,y'', ''a.json'' \<mapsto> bytes])"
proof -
  let ?L = "plain_lib\<lparr>text_encode := (\<lambda>enc text. Inr (enc @ '':'' @ text))\<rparr>"
  let ?o = "Some (default_options\<lparr>encoding := ''gbk'', orient := ''values''\<rparr>)"
  let ?r = "convert_csv_to_json_file ?L [''a.csv'' \<mapsto> ''x,y''] ''a.csv'' None ?o"
  have f: "fst ?r = Inr ''a.json''" by code_simp
  have c: "snd ?r ''a.json'' = Some ''utf-8:[]''" by code_simp
  have h: "?r = (Inr ''a.json'', snd ?r)"
    using f by (simp add: prod_eq_iff)
  from output_written_as_utf8 [OF h] f c show ?thesis
    by auto
qed

end
